theory Spec2Isabelle
  imports Complex_Main "HOL-Library.Word"
begin

section \<open>Python values\<close>

text \<open>
  The module is Python. A Python \<open>str\<close> is modelled as a \<^typ>\<open>string\<close> whose characters are
  the code points below 256; \<open>bytes\<close> are lists of 8-bit words. The values that flow
  through the module (record fields, decoded JSON documents, status codes) are modelled by
  one datatype. A \<open>dict\<close> is an association list in iteration order with distinct keys;
  the keys of a decoded JSON object are strings.
\<close>

type_synonym bytes = "8 word list"

datatype pyval =
    PNone
  | PBool bool
  | PInt int
  | PFloat rat
  | PStr string
  | PBytes bytes
  | PList "pyval list"
  | PDict "(string \<times> pyval) list"

text \<open>Truth value testing, as \<open>if x\<close> and \<open>x and y\<close> do it.\<close>

fun truthy :: "pyval \<Rightarrow> bool" where
  "truthy PNone = False"
| "truthy (PBool b) = b"
| "truthy (PInt i) = (i \<noteq> 0)"
| "truthy (PFloat q) = (q \<noteq> 0)"
| "truthy (PStr s) = (s \<noteq> [])"
| "truthy (PBytes b) = (b \<noteq> [])"
| "truthy (PList xs) = (xs \<noteq> [])"
| "truthy (PDict kvs) = (kvs \<noteq> [])"

text \<open>\<open>x == n\<close> for an integer literal \<open>n\<close>: numbers compare by value, \<open>True\<close> is 1.\<close>

fun py_eq_int :: "pyval \<Rightarrow> int \<Rightarrow> bool" where
  "py_eq_int (PInt i) n = (i = n)"
| "py_eq_int (PFloat q) n = (q = of_int n)"
| "py_eq_int (PBool b) n = ((if b then 1 else 0) = n)"
| "py_eq_int _ n = False"

subsection \<open>The string methods the module calls\<close>

text \<open>
  \<open>str.strip()\<close> without argument removes leading and trailing whitespace; among the code
  points below 256 the whitespace characters are 9 to 13, 28 to 32, 133 and 160.
\<close>

definition py_isspace :: "char \<Rightarrow> bool" where
  "py_isspace c =
     (let n = (of_char c :: nat)
      in (9 \<le> n \<and> n \<le> 13) \<or> (28 \<le> n \<and> n \<le> 32) \<or> n = 133 \<or> n = 160)"

definition py_strip :: "string \<Rightarrow> string" where
  "py_strip s = rev (dropWhile py_isspace (rev (dropWhile py_isspace s)))"

text \<open>
  \<open>s.replace(old, new)\<close>: every non-overlapping occurrence of \<open>old\<close>, found from the left,
  is replaced; an empty \<open>old\<close> matches before every character and at the end.
\<close>

function py_replace :: "string \<Rightarrow> string \<Rightarrow> string \<Rightarrow> string" where
  "py_replace old new [] = (if old = [] then new else [])"
| "py_replace old new (c # cs) =
     (if old = [] then new @ c # py_replace old new cs
      else if take (length old) (c # cs) = old
           then new @ py_replace old new (drop (length old) (c # cs))
           else c # py_replace old new cs)"
  by pat_completeness auto
termination
  by (relation "measure (\<lambda>(old, new, s). length s)") auto

section \<open>helpers.py\<close>

text \<open>
  A record of the ORM is read through its attributes only: it is a partial map from
  attribute names to values, and \<open>getattr(record, name, default)\<close> yields the default for a
  name that is no attribute.
\<close>

type_synonym odoo_record = "string \<rightharpoonup> pyval"

definition getattr_default :: "odoo_record \<Rightarrow> string \<Rightarrow> pyval \<Rightarrow> pyval" where
  "getattr_default r name dflt = (case r name of None \<Rightarrow> dflt | Some v \<Rightarrow> v)"

definition ESCAPE_CHARS :: "string list" where
  "ESCAPE_CHARS = [[CHR 0x22], [CHR 0x0A], [CHR 0x0D], [CHR 0x09], [CHR 0x08], [CHR 0x0C]]"

definition REPLACE_CHARS :: "string list" where
  "REPLACE_CHARS =
     [[CHR 0x5C, CHR 0x22], [CHR 0x5C, CHR ''n''], [CHR 0x5C, CHR ''r''],
      [CHR 0x5C, CHR ''t''], [CHR 0x5C, CHR ''b''], [CHR 0x5C, CHR ''f'']]"

text \<open>
  \<open>get_escaped_value(record, field)\<close>. The field name is a string (\<open>str(field)\<close> leaves a
  string as it is). The loop over \<open>zip(ESCAPE_CHARS, REPLACE_CHARS)\<close> is a left fold.
\<close>

definition get_escaped_value :: "odoo_record \<Rightarrow> string \<Rightarrow> pyval" where
  "get_escaped_value r field =
     (let field_value = getattr_default r field (PBool False)
      in case field_value of
           PStr s \<Rightarrow>
             if truthy field_value
             then PStr (foldl (\<lambda>v (escape_char, replace_char). py_replace escape_char replace_char v)
                              (py_strip s) (zip ESCAPE_CHARS REPLACE_CHARS))
             else field_value
         | _ \<Rightarrow> field_value)"

section \<open>models/ir\_action\_server.py: data\<close>

subsection \<open>Exceptions\<close>

text \<open>
  The exception classes that \<open>_handle_exception\<close> tells apart, and the other ones the
  module can meet. \<open>ConnectTimeout\<close> is a subclass of both \<open>ConnectionError\<close> and
  \<open>Timeout\<close>; \<open>Timeout\<close> stands for itself and \<open>ReadTimeout\<close>; \<open>RequestException\<close> for
  every other class of \<open>requests.exceptions\<close>; \<open>OtherException\<close> carries the class name of
  any other subclass of \<open>Exception\<close> (a template error, a JSON decoding error, ...).
\<close>

datatype exn =
    HTTPError
  | ConnectionError
  | ConnectTimeout
  | Timeout
  | RequestException
  | AttributeError
  | TypeError
  | OtherException string

fun isinstance_HTTPError :: "exn \<Rightarrow> bool" where
  "isinstance_HTTPError HTTPError = True"
| "isinstance_HTTPError _ = False"

fun isinstance_ConnectionError :: "exn \<Rightarrow> bool" where
  "isinstance_ConnectionError ConnectionError = True"
| "isinstance_ConnectionError ConnectTimeout = True"
| "isinstance_ConnectionError _ = False"

fun isinstance_Timeout :: "exn \<Rightarrow> bool" where
  "isinstance_Timeout Timeout = True"
| "isinstance_Timeout ConnectTimeout = True"
| "isinstance_Timeout _ = False"

fun isinstance_RequestException :: "exn \<Rightarrow> bool" where
  "isinstance_RequestException HTTPError = True"
| "isinstance_RequestException ConnectionError = True"
| "isinstance_RequestException ConnectTimeout = True"
| "isinstance_RequestException Timeout = True"
| "isinstance_RequestException RequestException = True"
| "isinstance_RequestException _ = False"

subsection \<open>Responses, requests, the action and the log\<close>

record response =
  status_code :: int
  content :: bytes
  "text" :: string

text \<open>
  What \<open>_webhook_logging\<close> receives as its \<open>response\<close> argument: the response object on the
  success path, the exception object on the failure path (or \<open>None\<close>). An exception object
  and \<open>None\<close> have neither an attribute \<open>content\<close> nor an attribute \<open>status_code\<close>: reading
  the first raises \<open>AttributeError\<close>, and \<open>getattr(_, "status_code", None)\<close> gives \<open>None\<close>.
\<close>

datatype pyobj = NoneObj | Response response | Exception exn

fun attr_content :: "pyobj \<Rightarrow> exn + bytes" where
  "attr_content (Response r) = Inr (content r)"
| "attr_content (Exception e) = Inl AttributeError"
| "attr_content NoneObj = Inl AttributeError"

fun getattr_status_code :: "pyobj \<Rightarrow> int option" where
  "getattr_status_code (Response r) = Some (status_code r)"
| "getattr_status_code (Exception e) = None"
| "getattr_status_code NoneObj = None"

text \<open>The call \<open>requests.get(url, params=, headers=, timeout=)\<close> or \<open>requests.post(url, data=, ...)\<close>.\<close>

record request =
  http_method :: string
  url :: string
  req_headers :: pyval
  payload :: pyval
  timeout :: int

text \<open>
  The fields of the server action (\<open>self\<close>). \<open>type\<close> is the field of that name which every
  action has (\<open>ir.actions.server\<close> for a server action); \<open>self_str\<close> is \<open>str(self)\<close>. The
  text field \<open>headers\<close> is \<open>None\<close> when unset (\<open>False\<close> in the ORM).
\<close>

record action =
  name :: string
  self_str :: string
  "type" :: string
  endpoint :: string
  headers :: "string option"
  body_template :: string
  request_method :: string
  request_type :: string
  log_webhook_calls :: bool
  delay_execution :: bool
  delay :: int

text \<open>The values of the dictionary given to \<open>create\<close> of \<open>webhook.logging\<close>.\<close>

record vals =
  v_webhook_type :: string
  v_webhook :: string
  v_endpoint :: string
  v_headers :: "string option"
  v_body :: string
  v_response :: string
  v_status :: "int option"

text \<open>
  The evaluation context: a dictionary from names to objects. Besides plain values it
  holds records, recordsets and, for GraphQL bodies, the function \<open>escape\<close>.
\<close>

datatype ctxval =
    CVal pyval
  | CRecord odoo_record
  | CRecords "odoo_record list"
  | CFun "odoo_record \<Rightarrow> string \<Rightarrow> pyval"

type_synonym eval_ctx = "string \<rightharpoonup> ctxval"

text \<open>
  The effects of the module: the rows of \<open>webhook.logging\<close>, the messages given to
  \<open>_logger.error\<close>, the HTTP requests made, and the jobs handed to the job queue by
  \<open>with_delay\<close> (the record and the delay).
\<close>

record world =
  logs :: "vals list"
  diag :: "string list"
  sent :: "request list"
  jobs :: "(odoo_record \<times> int) list"

text \<open>
  The libraries the module calls are parameters of the model: the JSON codec, the template
  engine (\<open>Environment(loader=BaseLoader()).from_string(t).render(**ctx)\<close>), the network
  (the answer to a request may depend on the requests made before), \<open>ustr\<close> and
  \<open>_get_eval_context\<close> of the framework, and the built-ins \<open>dict\<close>, \<open>str\<close> and the framework's
  \<open>safe_eval\<close> outside the arguments for which they are defined below.
\<close>

record env =
  json_loads :: "string \<Rightarrow> exn + pyval"
  json_dumps :: "pyval \<Rightarrow> string"
  render :: "string \<Rightarrow> eval_ctx \<Rightarrow> exn + string"
  network :: "request list \<Rightarrow> request \<Rightarrow> exn + response"
  ustr :: "pyval \<Rightarrow> string"
  get_eval_context :: "action \<Rightarrow> eval_ctx"
  dict_other :: "pyval \<Rightarrow> exn + pyval"
  str_other :: "pyval \<Rightarrow> string"
  safe_eval_other :: "string \<Rightarrow> exn + pyval"

definition DEFAULT_GET_TIMEOUT :: int where
  "DEFAULT_GET_TIMEOUT = 5"

definition DEFAULT_POST_TIMEOUT :: int where
  "DEFAULT_POST_TIMEOUT = 5"

subsection \<open>Built-ins used on the headers\<close>

text \<open>
  \<open>dict(x)\<close> of a dictionary is a dictionary with the same items.
\<close>

definition py_dict :: "env \<Rightarrow> pyval \<Rightarrow> exn + pyval" where
  "py_dict env v = (case v of PDict kvs \<Rightarrow> Inr (PDict kvs) | _ \<Rightarrow> dict_other env v)"

text \<open>
  \<open>str(d)\<close> of a dictionary whose keys and values are strings is its display: the items
  as \<open>key: value\<close>, joined by a comma and a space, in braces, every string written by
  \<open>repr\<close>. \<open>repr\<close> of a string takes single quotes unless the string has a single quote and
  no double quote; it escapes the quote and the backslash, writes tab, newline and carriage
  return as \<open>\\t\<close>, \<open>\\n\<close>, \<open>\\r\<close>, every other non-printable character as \<open>\\xhh\<close>, and
  copies the printable ones (below 256: 32 to 126, and 161 to 255 without 173).
\<close>

definition py_isprintable :: "char \<Rightarrow> bool" where
  "py_isprintable c =
     (let n = (of_char c :: nat) in (32 \<le> n \<and> n \<le> 126) \<or> (161 \<le> n \<and> n \<noteq> 173))"

definition hex_digit :: "nat \<Rightarrow> char" where
  "hex_digit n = (if n < 10 then char_of (48 + n) else char_of (87 + n))"

definition repr_char :: "char \<Rightarrow> char \<Rightarrow> string" where
  "repr_char quote c =
     (if c = quote \<or> c = CHR 0x5C then [CHR 0x5C, c]
      else if c = CHR 0x09 then [CHR 0x5C, CHR ''t'']
      else if c = CHR 0x0A then [CHR 0x5C, CHR ''n'']
      else if c = CHR 0x0D then [CHR 0x5C, CHR ''r'']
      else if \<not> py_isprintable c
           then [CHR 0x5C, CHR ''x'', hex_digit (of_char c div 16), hex_digit (of_char c mod 16)]
           else [c])"

definition repr_quote :: "string \<Rightarrow> char" where
  "repr_quote s = (if CHR 0x27 \<in> set s \<and> CHR 0x22 \<notin> set s then CHR 0x22 else CHR 0x27)"

definition repr_str :: "string \<Rightarrow> string" where
  "repr_str s = repr_quote s # concat (map (repr_char (repr_quote s)) s) @ [repr_quote s]"

fun join :: "string \<Rightarrow> string list \<Rightarrow> string" where
  "join sep [] = []"
| "join sep [x] = x"
| "join sep (x # y # ys) = x @ sep @ join sep (y # ys)"

definition repr_str_dict :: "(string \<times> string) list \<Rightarrow> string" where
  "repr_str_dict d =
     ''{'' @ join '', '' (map (\<lambda>(k, v). repr_str k @ '': '' @ repr_str v) d) @ ''}''"

fun str_items :: "(string \<times> pyval) list \<Rightarrow> (string \<times> string) list option" where
  "str_items [] = Some []"
| "str_items ((k, PStr s) # kvs) = map_option ((#) (k, s)) (str_items kvs)"
| "str_items (_ # kvs) = None"

definition py_str :: "env \<Rightarrow> pyval \<Rightarrow> string" where
  "py_str env v =
     (case v of
        PDict kvs \<Rightarrow> (case str_items kvs of Some d \<Rightarrow> repr_str_dict d | None \<Rightarrow> str_other env v)
      | _ \<Rightarrow> str_other env v)"

text \<open>
  \<open>safe_eval(expr)\<close> evaluates a Python expression. The expressions evaluated here are the
  dictionary displays of string literals in the form above: such a display with distinct
  keys evaluates to the dictionary of its items. A string literal is read up to its closing
  quote; the escapes read are those of the backslash, the two quotes, \<open>\\t\<close>, \<open>\\n\<close>, \<open>\\r\<close>
  and \<open>\\xhh\<close>. Every other expression is left to the parameter.
\<close>

definition unhex :: "char \<Rightarrow> nat option" where
  "unhex c =
     (let n = (of_char c :: nat)
      in if 48 \<le> n \<and> n \<le> 57 then Some (n - 48)
         else if 97 \<le> n \<and> n \<le> 102 then Some (n - 87)
         else None)"

fun eval_str_body :: "char \<Rightarrow> string \<Rightarrow> (string \<times> string) option" where
  "eval_str_body quote [] = None"
| "eval_str_body quote [c] = (if c = quote then Some ([], []) else None)"
| "eval_str_body quote (c # e # cs) =
     (if c = quote then Some ([], e # cs)
      else if c = CHR 0x5C then
        (if e = CHR 0x5C \<or> e = CHR 0x27 \<or> e = CHR 0x22
           then map_option (apfst ((#) e)) (eval_str_body quote cs)
         else if e = CHR ''t'' then map_option (apfst ((#) (CHR 0x09))) (eval_str_body quote cs)
         else if e = CHR ''n'' then map_option (apfst ((#) (CHR 0x0A))) (eval_str_body quote cs)
         else if e = CHR ''r'' then map_option (apfst ((#) (CHR 0x0D))) (eval_str_body quote cs)
         else if e = CHR ''x'' then
           (case cs of
              h1 # h2 # cs' \<Rightarrow>
                (case (unhex h1, unhex h2) of
                   (Some a, Some b) \<Rightarrow>
                     map_option (apfst ((#) (char_of (16 * a + b)))) (eval_str_body quote cs')
                 | _ \<Rightarrow> None)
            | _ \<Rightarrow> None)
         else None)
      else if py_isprintable c then map_option (apfst ((#) c)) (eval_str_body quote (e # cs))
      else None)"

definition eval_str_literal :: "string \<Rightarrow> (string \<times> string) option" where
  "eval_str_literal s =
     (case s of
        [] \<Rightarrow> None
      | q # cs \<Rightarrow> if q = CHR 0x27 \<or> q = CHR 0x22 then eval_str_body q cs else None)"

text \<open>The items of a display; the first argument bounds their number.\<close>

fun eval_items :: "nat \<Rightarrow> string \<Rightarrow> (string \<times> string) list option" where
  "eval_items 0 s = None"
| "eval_items (Suc n) s =
     (case eval_str_literal s of
        None \<Rightarrow> None
      | Some (k, s1) \<Rightarrow>
          (case s1 of
             c1 # c2 # s2 \<Rightarrow>
               if c1 = CHR '':'' \<and> c2 = CHR '' '' then
                 (case eval_str_literal s2 of
                    None \<Rightarrow> None
                  | Some (v, s3) \<Rightarrow>
                      if s3 = ''}'' then Some [(k, v)]
                      else (case s3 of
                              c3 # c4 # s4 \<Rightarrow>
                                if c3 = CHR '','' \<and> c4 = CHR '' ''
                                then map_option ((#) (k, v)) (eval_items n s4)
                                else None
                            | _ \<Rightarrow> None))
               else None
           | _ \<Rightarrow> None))"

definition eval_str_dict :: "string \<Rightarrow> (string \<times> string) list option" where
  "eval_str_dict s =
     (case s of
        [] \<Rightarrow> None
      | c # r \<Rightarrow>
          if c \<noteq> CHR ''{'' then None
          else if r = ''}'' then Some []
          else (case eval_items (length r) r of
                  None \<Rightarrow> None
                | Some d \<Rightarrow> if distinct (map fst d) then Some d else None))"

definition safe_eval :: "env \<Rightarrow> string \<Rightarrow> exn + pyval" where
  "safe_eval env expr =
     (case eval_str_dict expr of
        Some d \<Rightarrow> Inr (PDict (map (\<lambda>(k, v). (k, PStr v)) d))
      | None \<Rightarrow> safe_eval_other env expr)"

text \<open>\<open>s.encode(encoding="utf-8")\<close> for code points below 256.\<close>

definition utf8_encode :: "string \<Rightarrow> bytes" where
  "utf8_encode s =
     concat (map (\<lambda>c. let n = (of_char c :: nat)
                      in if n < 128 then [of_nat n]
                         else [of_nat (192 + n div 64), of_nat (128 + n mod 64)]) s)"

section \<open>models/ir\_action\_server.py: operations\<close>

text \<open>
  Modelled from the spec: the model \<open>webhook.logging\<close> of the repository is not among the
  sources. Its \<open>create\<close> is the audit log store's \<open>create(entry)\<close>, append-only: it adds one
  row and leaves the rows before it as they are.
\<close>

definition create :: "vals \<Rightarrow> vals list \<Rightarrow> vals list" where
  "create v rows = rows @ [v]"

text \<open>\<open>requests.get\<close> and \<open>requests.post\<close>: one request, answered by the network or failing.\<close>

definition requests_call :: "env \<Rightarrow> request \<Rightarrow> world \<Rightarrow> (exn + response) \<times> world" where
  "requests_call env req w = (network env (sent w) req, w\<lparr>sent := sent w @ [req]\<rparr>)"

text \<open>\<open>response.raise_for_status()\<close> raises \<open>HTTPError\<close> for a status from 400 to 599.\<close>

definition raise_for_status :: "response \<Rightarrow> exn + unit" where
  "raise_for_status r =
     (if 400 \<le> status_code r \<and> status_code r < 600 then Inl HTTPError else Inr ())"

definition get_webhook_headers :: "env \<Rightarrow> action \<Rightarrow> exn + string" where
  "get_webhook_headers env self =
     (case headers self of
        None \<Rightarrow> Inr (py_str env (PDict []))
      | Some h \<Rightarrow>
          if h = [] then Inr (py_str env (PDict []))
          else (case json_loads env (py_strip h) of
                  Inl e \<Rightarrow> Inl e
                | Inr v \<Rightarrow>
                    (case py_dict env v of
                       Inl e \<Rightarrow> Inl e
                     | Inr d \<Rightarrow> Inr (py_str env d))))"

definition prepare_data_for_get :: "env \<Rightarrow> action \<Rightarrow> odoo_record \<Rightarrow> eval_ctx \<Rightarrow> exn + pyval" where
  "prepare_data_for_get env self r eval_context =
     (case render env (body_template self) (eval_context(''record'' \<mapsto> CRecord r)) of
        Inl e \<Rightarrow> Inl e
      | Inr data \<Rightarrow> Inr (PBytes (utf8_encode data)))"

definition prepare_data_for_post_request ::
  "env \<Rightarrow> action \<Rightarrow> odoo_record \<Rightarrow> eval_ctx \<Rightarrow> exn + pyval" where
  "prepare_data_for_post_request env self r eval_context =
     (case render env (body_template self) (eval_context(''record'' \<mapsto> CRecord r)) of
        Inl e \<Rightarrow> Inl e
      | Inr data \<Rightarrow> Inr (PBytes (utf8_encode data)))"

definition prepare_data_for_post_graphql ::
  "env \<Rightarrow> action \<Rightarrow> odoo_record \<Rightarrow> eval_ctx \<Rightarrow> exn + pyval" where
  "prepare_data_for_post_graphql env self r eval_context =
     (case render env (body_template self)
             (eval_context(''record'' \<mapsto> CRecord r, ''escape'' \<mapsto> CFun get_escaped_value)) of
        Inl e \<Rightarrow> Inl e
      | Inr query \<Rightarrow>
          Inr (PStr (json_dumps env (PDict [(''query'', PStr query), (''variables'', PDict [])]))))"

text \<open>
  \<open>getattr(self, name)\<close> for the names built from \<open>request_type\<close>: the class has the two
  methods \<open>_prepare_data_for_post_request\<close> and \<open>_prepare_data_for_post_graphql\<close>.
\<close>

definition getattr_prepare ::
  "string \<Rightarrow> (env \<Rightarrow> action \<Rightarrow> odoo_record \<Rightarrow> eval_ctx \<Rightarrow> exn + pyval) option" where
  "getattr_prepare attr =
     (if attr = ''_prepare_data_for_post_request'' then Some prepare_data_for_post_request
      else if attr = ''_prepare_data_for_post_graphql'' then Some prepare_data_for_post_graphql
      else None)"

definition hasattr_prepare :: "string \<Rightarrow> bool" where
  "hasattr_prepare attr = (case getattr_prepare attr of None \<Rightarrow> False | Some _ \<Rightarrow> True)"

definition execute_webhook_get_request ::
  "env \<Rightarrow> action \<Rightarrow> odoo_record \<Rightarrow> eval_ctx \<Rightarrow> world \<Rightarrow> (exn + response \<times> pyval) \<times> world" where
  "execute_webhook_get_request env self r eval_context w =
     (case get_webhook_headers env self of
        Inl e \<Rightarrow> (Inl e, w)
      | Inr hs \<Rightarrow>
          (case safe_eval env hs of
             Inl e \<Rightarrow> (Inl e, w)
           | Inr hdrs \<Rightarrow>
               (case prepare_data_for_get env self r eval_context of
                  Inl e \<Rightarrow> (Inl e, w)
                | Inr params \<Rightarrow>
                    (case requests_call env
                            \<lparr>http_method = ''GET'', url = endpoint self, req_headers = hdrs,
                             payload = (if truthy params then params else PDict []),
                             timeout = DEFAULT_GET_TIMEOUT\<rparr> w of
                       (Inl e, w') \<Rightarrow> (Inl e, w')
                     | (Inr resp, w') \<Rightarrow> (Inr (resp, params), w')))))"

text \<open>
  The choice of the body in \<open>_execute_webhook_post_request\<close>: the method named after
  \<open>request_type\<close> if the class has it, \<open>_prepare_data_for_post_request\<close> otherwise.
\<close>

definition prepare_payload :: "env \<Rightarrow> action \<Rightarrow> odoo_record \<Rightarrow> eval_ctx \<Rightarrow> exn + pyval" where
  "prepare_payload env self r eval_context =
     (let prepare_method = ''_prepare_data_for_post_'' @ request_type self;
          prepare_method = (if \<not> hasattr_prepare prepare_method
                            then ''_prepare_data_for_post_request''
                            else prepare_method)
      in case getattr_prepare prepare_method of
           None \<Rightarrow> Inl AttributeError
         | Some prepare \<Rightarrow> prepare env self r eval_context)"

definition execute_webhook_post_request ::
  "env \<Rightarrow> action \<Rightarrow> odoo_record \<Rightarrow> eval_ctx \<Rightarrow> world \<Rightarrow> (exn + response \<times> pyval) \<times> world" where
  "execute_webhook_post_request env self r eval_context w =
     (case get_webhook_headers env self of
        Inl e \<Rightarrow> (Inl e, w)
      | Inr hs \<Rightarrow>
          (case safe_eval env hs of
             Inl e \<Rightarrow> (Inl e, w)
           | Inr hdrs \<Rightarrow>
               (case prepare_payload env self r eval_context of
                  Inl e \<Rightarrow> (Inl e, w)
                | Inr data \<Rightarrow>
                    (case requests_call env
                            \<lparr>http_method = ''POST'', url = endpoint self,
                             req_headers = hdrs, payload = data,
                             timeout = DEFAULT_POST_TIMEOUT\<rparr> w of
                       (Inl e, w') \<Rightarrow> (Inl e, w')
                     | (Inr resp, w') \<Rightarrow> (Inr (resp, data), w')))))"

text \<open>
  \<open>getattr(self, "_execute_webhook_%s_request" % self.request_method)\<close>: the class has the
  methods for \<open>get\<close> and \<open>post\<close>; for any other name \<open>getattr\<close> raises \<open>AttributeError\<close>.
\<close>

definition getattr_execute ::
  "string \<Rightarrow> (env \<Rightarrow> action \<Rightarrow> odoo_record \<Rightarrow> eval_ctx \<Rightarrow> world
      \<Rightarrow> (exn + response \<times> pyval) \<times> world) option" where
  "getattr_execute attr =
     (if attr = ''_execute_webhook_get_request'' then Some execute_webhook_get_request
      else if attr = ''_execute_webhook_post_request'' then Some execute_webhook_post_request
      else None)"

text \<open>The two loops of \<open>_get_body_status_code\<close>, each a left fold over the items.\<close>

definition scan_value :: "pyval \<Rightarrow> pyval \<Rightarrow> pyval" where
  "scan_value status value =
     (case value of
        PDict kvs \<Rightarrow> foldl (\<lambda>st (k, v). if k = ''statusCode'' then v else st) status kvs
      | _ \<Rightarrow> status)"

definition scan_data :: "pyval \<Rightarrow> (string \<times> pyval) list \<Rightarrow> pyval" where
  "scan_data status items = foldl (\<lambda>st (u, value). scan_value st value) status items"

definition is_dict :: "pyval \<Rightarrow> bool" where
  "is_dict v = (case v of PDict _ \<Rightarrow> True | _ \<Rightarrow> False)"

text \<open>\<open>d.get(key)\<close> on a dictionary; any other true value has no method \<open>get\<close>.\<close>

definition dict_get :: "pyval \<Rightarrow> string \<Rightarrow> exn + pyval" where
  "dict_get d key =
     (case d of
        PDict kvs \<Rightarrow> (case map_of kvs key of None \<Rightarrow> Inr PNone | Some v \<Rightarrow> Inr v)
      | _ \<Rightarrow> Inl AttributeError)"

definition get_body_status_code :: "env \<Rightarrow> action \<Rightarrow> response \<Rightarrow> exn + pyval" where
  "get_body_status_code env self resp =
     (let status = PInt (status_code resp)
      in if type self = ''graphql'' then
           (case (if text resp \<noteq> [] then json_loads env (text resp) else Inr (PBool False)) of
              Inl e \<Rightarrow> Inl e
            | Inr response_data \<Rightarrow>
                if \<not> truthy response_data then Inr status
                else (case dict_get response_data ''data'' of
                        Inl e \<Rightarrow> Inl e
                      | Inr data \<Rightarrow>
                          if truthy data \<and> is_dict data
                          then (case data of
                                  PDict items \<Rightarrow> Inr (scan_data status items)
                                | _ \<Rightarrow> Inr status)
                          else Inr status))
         else Inr status)"

definition webhook_logging :: "env \<Rightarrow> action \<Rightarrow> pyval \<Rightarrow> pyobj \<Rightarrow> world \<Rightarrow> (exn + unit) \<times> world" where
  "webhook_logging env self body resp w =
     (if log_webhook_calls self then
        (case attr_content resp of
           Inl e \<Rightarrow> (Inl e, w)
         | Inr c \<Rightarrow>
             (Inr (),
              w\<lparr>logs := create
                   \<lparr>v_webhook_type = ''outgoing'',
                    v_webhook = name self @ '' ('' @ self_str self @ '')'',
                    v_endpoint = endpoint self,
                    v_headers = headers self,
                    v_body = ustr env body,
                    v_response = ustr env (PBytes c),
                    v_status = getattr_status_code resp\<rparr> (logs w)\<rparr>))
      else (Inr (), w))"

text \<open>The message \<open>_handle_exception\<close> logs: the first \<open>except\<close> clause the exception matches.\<close>

definition diagnostic :: "exn \<Rightarrow> string" where
  "diagnostic e =
     (if isinstance_HTTPError e then ''HTTPError during request''
      else if isinstance_ConnectionError e then ''Error Connecting during request''
      else if isinstance_Timeout e then ''Connection Timeout''
      else if isinstance_RequestException e then ''Something wrong happened during request''
      else ''Internal exception happened during sending webhook request'')"

text \<open>
  \<open>_handle_exception(response, exception, body)\<close>: the exception is caught by one of the
  \<open>except\<close> clauses, and the \<open>finally\<close> clause calls \<open>_webhook_logging(body, exception)\<close>; what
  that call raises leaves the function. The parameter \<open>response\<close> is not used.
\<close>

definition handle_exception ::
  "env \<Rightarrow> action \<Rightarrow> pyobj \<Rightarrow> exn \<Rightarrow> pyval \<Rightarrow> world \<Rightarrow> (exn + unit) \<times> world" where
  "handle_exception env self resp exception body w =
     webhook_logging env self body (Exception exception) (w\<lparr>diag := diag w @ [diagnostic exception]\<rparr>)"

text \<open>
  The \<open>try\<close> block of \<open>_execute_webhook\<close>. It yields the exception raised in it, if any, and
  the values of the variables \<open>response\<close> and \<open>body\<close> when it is left: both are \<open>None\<close> until
  the request function has returned.
\<close>

definition call_request_method ::
  "env \<Rightarrow> action \<Rightarrow> odoo_record \<Rightarrow> eval_ctx \<Rightarrow> world \<Rightarrow> (exn + response \<times> pyval) \<times> world" where
  "call_request_method env self r eval_context w =
     (case getattr_execute (''_execute_webhook_'' @ request_method self @ ''_request'') of
        None \<Rightarrow> (Inl AttributeError, w)
      | Some func \<Rightarrow> func env self r eval_context w)"

definition try_block ::
  "env \<Rightarrow> action \<Rightarrow> odoo_record \<Rightarrow> eval_ctx \<Rightarrow> world \<Rightarrow> (exn option \<times> pyobj \<times> pyval) \<times> world" where
  "try_block env self r eval_context w =
     (case call_request_method env self r eval_context w of
        (Inl e, w') \<Rightarrow> ((Some e, NoneObj, PNone), w')
      | (Inr (resp, body), w') \<Rightarrow>
          (case raise_for_status resp of
             Inl e \<Rightarrow> ((Some e, Response resp, body), w')
           | Inr u \<Rightarrow>
               (case get_body_status_code env self resp of
                  Inl e \<Rightarrow> ((Some e, Response resp, body), w')
                | Inr status \<Rightarrow>
                    if \<not> py_eq_int status 200
                    then ((Some HTTPError, Response resp, body), w')
                    else ((None, Response resp, body), w'))))"

text \<open>The context of a delayed execution is built anew; \<open>records\<close> is the record itself.\<close>

definition context_of :: "env \<Rightarrow> action \<Rightarrow> odoo_record \<Rightarrow> eval_ctx option \<Rightarrow> eval_ctx" where
  "context_of env self r eval_context =
     (case eval_context of
        None \<Rightarrow> (get_eval_context env self)(''record'' \<mapsto> CRecord r, ''records'' \<mapsto> CRecord r)
      | Some c \<Rightarrow> c)"

text \<open>
  \<open>_execute_webhook(record, eval_context)\<close>: the \<open>except\<close> clause hands every exception of the
  \<open>try\<close> block to \<open>_handle_exception\<close>, the \<open>else\<close> clause logs the call. Neither clause is
  itself guarded: the result is the exception that leaves the method, if any.
\<close>

definition execute_webhook ::
  "env \<Rightarrow> action \<Rightarrow> odoo_record \<Rightarrow> eval_ctx option \<Rightarrow> world \<Rightarrow> (exn + unit) \<times> world" where
  "execute_webhook env self r eval_context w =
     (case try_block env self r (context_of env self r eval_context) w of
        ((Some e, resp, body), w') \<Rightarrow> handle_exception env self resp e body w'
      | ((None, resp, body), w') \<Rightarrow> webhook_logging env self body resp w')"

text \<open>
  The final state of an attempt: \<open>Succeeded\<close> when the \<open>try\<close> block ends without exception
  (the \<open>else\<close> clause runs), \<open>Failed\<close> when it raises (the \<open>except\<close> clause runs).
\<close>

datatype outcome = Succeeded | Failed

definition outcome_of ::
  "env \<Rightarrow> action \<Rightarrow> odoo_record \<Rightarrow> eval_ctx option \<Rightarrow> world \<Rightarrow> outcome" where
  "outcome_of env self r eval_context w =
     (case fst (fst (try_block env self r (context_of env self r eval_context) w)) of
        None \<Rightarrow> Succeeded
      | Some e \<Rightarrow> Failed)"

text \<open>
  The loop of \<open>_run_action_custom_webhook_multi\<close>. With \<open>delay_execution\<close> the record is
  handed to the job queue; otherwise the webhook is executed, and an exception that leaves
  \<open>_execute_webhook\<close> ends the loop.
\<close>

fun for_records ::
  "env \<Rightarrow> action \<Rightarrow> eval_ctx \<Rightarrow> odoo_record list \<Rightarrow> world \<Rightarrow> (exn + unit) \<times> world" where
  "for_records env self eval_context [] w = (Inr (), w)"
| "for_records env self eval_context (r # rs) w =
     (if delay_execution self
      then for_records env self eval_context rs (w\<lparr>jobs := jobs w @ [(r, delay self)]\<rparr>)
      else (case execute_webhook env self r (Some eval_context) w of
              (Inl e, w') \<Rightarrow> (Inl e, w')
            | (Inr u, w') \<Rightarrow> for_records env self eval_context rs w'))"

text \<open>
  \<open>eval_context.get("records", self.model_id.browse())\<close> is a recordset (a single record is
  the recordset of itself), empty when the key is missing; a value that is no recordset
  cannot be iterated as one.
\<close>

definition records_of :: "eval_ctx \<Rightarrow> exn + odoo_record list" where
  "records_of eval_context =
     (case eval_context ''records'' of
        None \<Rightarrow> Inr []
      | Some (CRecords rs) \<Rightarrow> Inr rs
      | Some (CRecord r) \<Rightarrow> Inr [r]
      | Some _ \<Rightarrow> Inl TypeError)"

definition run_action_custom_webhook_multi ::
  "env \<Rightarrow> action \<Rightarrow> eval_ctx \<Rightarrow> world \<Rightarrow> (exn + ctxval option) \<times> world" where
  "run_action_custom_webhook_multi env self eval_context w =
     (case records_of eval_context of
        Inl e \<Rightarrow> (Inl e, w)
      | Inr records \<Rightarrow>
          (case for_records env self eval_context records w of
             (Inl e, w') \<Rightarrow> (Inl e, w')
           | (Inr u, w') \<Rightarrow> (Inr (eval_context ''action''), w')))"

text \<open>
  The expression \<open>safe_eval(self._get_webhook_headers())\<close> of both request functions: the
  header mapping given to the HTTP call.
\<close>

definition webhook_headers :: "env \<Rightarrow> action \<Rightarrow> exn + pyval" where
  "webhook_headers env self =
     (case get_webhook_headers env self of Inl e \<Rightarrow> Inl e | Inr hs \<Rightarrow> safe_eval env hs)"

text \<open>One turn of that loop as a change of the state, when nothing is raised.\<close>

definition step_record :: "env \<Rightarrow> action \<Rightarrow> eval_ctx \<Rightarrow> world \<Rightarrow> odoo_record \<Rightarrow> world" where
  "step_record env self ec w r =
     (if delay_execution self then w\<lparr>jobs := jobs w @ [(r, delay self)]\<rparr>
      else snd (execute_webhook env self r (Some ec) w))"

section \<open>The specification's reading of \<open>escape\<close>\<close>

text \<open>
  The specification describes \<open>escape\<close> character by character: each of the six characters
  is replaced by its two-character sequence, every other character stays.
\<close>

definition escape_sequence :: "char \<Rightarrow> string" where
  "escape_sequence c =
     (if c = CHR 0x22 then [CHR 0x5C, CHR 0x22]
      else if c = CHR 0x0A then [CHR 0x5C, CHR ''n'']
      else if c = CHR 0x0D then [CHR 0x5C, CHR ''r'']
      else if c = CHR 0x09 then [CHR 0x5C, CHR ''t'']
      else if c = CHR 0x08 then [CHR 0x5C, CHR ''b'']
      else if c = CHR 0x0C then [CHR 0x5C, CHR ''f'']
      else [c])"

definition escape_spec :: "odoo_record \<Rightarrow> string \<Rightarrow> pyval" where
  "escape_spec r field =
     (case r field of
        None \<Rightarrow> PBool False
      | Some (PStr s) \<Rightarrow>
          if s \<noteq> [] then PStr (concat (map escape_sequence (py_strip s))) else PStr s
      | Some v \<Rightarrow> v)"

section \<open>Example configurations\<close>

text \<open>
  A test environment: the template engine on templates without tags, the JSON decoder on
  the documents of the examples, a network that answers every request in the same way.
\<close>

definition doc_404 :: string where
  "doc_404 = ''{'' @ [CHR 0x22] @ ''data'' @ [CHR 0x22] @ '': {'' @ [CHR 0x22] @ ''x''
     @ [CHR 0x22] @ '': {'' @ [CHR 0x22] @ ''statusCode'' @ [CHR 0x22] @ '': 404}}}''"

definition doc_200 :: string where
  "doc_200 = ''{'' @ [CHR 0x22] @ ''data'' @ [CHR 0x22] @ '': {'' @ [CHR 0x22] @ ''x''
     @ [CHR 0x22] @ '': {'' @ [CHR 0x22] @ ''statusCode'' @ [CHR 0x22] @ '': 200}}}''"

definition doc_headers :: string where
  "doc_headers = ''{'' @ [CHR 0x22] @ ''X-Token'' @ [CHR 0x22] @ '': '' @ [CHR 0x22]
     @ ''it's'' @ [CHR 0x22] @ ''}''"

definition test_loads :: "string \<Rightarrow> exn + pyval" where
  "test_loads s =
     (if s = doc_404
        then Inr (PDict [(''data'', PDict [(''x'', PDict [(''statusCode'', PInt 404)])])])
      else if s = doc_200
        then Inr (PDict [(''data'', PDict [(''x'', PDict [(''statusCode'', PInt 200)])])])
      else if s = doc_headers then Inr (PDict [(''X-Token'', PStr ''it's'')])
      else if s = ''{}'' then Inr (PDict [])
      else Inl (OtherException ''JSONDecodeError''))"

definition test_env :: "(exn + response) \<Rightarrow> env" where
  "test_env answer =
     \<lparr>json_loads = test_loads,
      json_dumps = (\<lambda>v. []),
      render = (\<lambda>t c. Inr t),
      network = (\<lambda>h q. answer),
      ustr = (\<lambda>v. case v of PStr s \<Rightarrow> s | PBytes b \<Rightarrow> map (\<lambda>x. char_of (unat x)) b | _ \<Rightarrow> ''None''),
      get_eval_context = (\<lambda>a. Map.empty),
      dict_other = (\<lambda>v. Inl TypeError),
      str_other = (\<lambda>v. []),
      safe_eval_other = (\<lambda>s. Inl (OtherException ''SyntaxError''))\<rparr>"

definition test_action :: action where
  "test_action =
     \<lparr>name = ''hook'', self_str = ''ir.actions.server(1,)'', type = ''ir.actions.server'',
      endpoint = ''https://example.org/hook'', headers = Some ''{}'', body_template = ''ping'',
      request_method = ''post'', request_type = ''request'', log_webhook_calls = False,
      delay_execution = False, delay = 0\<rparr>"

definition test_world :: world where
  "test_world = \<lparr>logs = [], diag = [], sent = [], jobs = []\<rparr>"

definition answer_of :: "int \<Rightarrow> string \<Rightarrow> response" where
  "answer_of code body = \<lparr>status_code = code, content = utf8_encode body, text = body\<rparr>"

definition quoted_hi :: string where
  "quoted_hi = ''He said '' @ [CHR 0x22] @ ''hi'' @ [CHR 0x22]"

definition escaped_hi :: string where
  "escaped_hi = ''He said '' @ [CHR 0x5C, CHR 0x22] @ ''hi'' @ [CHR 0x5C, CHR 0x22]"

section \<open>Properties of \<open>escape\<close>\<close>

lemma py_replace_char:
  "py_replace [c] new s = concat (map (\<lambda>x. if x = c then new else [x]) s)"
  by (induction s) simp_all

lemma concat_map_concat_map:
  "concat (map f (concat (map g s))) = concat (map (\<lambda>x. concat (map f (g x))) s)"
  by (induction s) simp_all

lemma py_replace_concat_map:
  "py_replace [c] new (concat (map f s)) = concat (map (\<lambda>x. py_replace [c] new (f x)) s)"
  by (simp add: py_replace_char concat_map_concat_map)

text \<open>The six replacements, applied in the order of the lists to a single character.\<close>

lemma escape_one:
  "py_replace [CHR 0x0C] [CHR 0x5C, CHR ''f'']
     (py_replace [CHR 0x08] [CHR 0x5C, CHR ''b'']
       (py_replace [CHR 0x09] [CHR 0x5C, CHR ''t'']
         (py_replace [CHR 0x0D] [CHR 0x5C, CHR ''r'']
           (py_replace [CHR 0x0A] [CHR 0x5C, CHR ''n'']
             (py_replace [CHR 0x22] [CHR 0x5C, CHR 0x22] [x]))))) = escape_sequence x"
  by (simp add: escape_sequence_def)

lemma escape_fold:
  "foldl (\<lambda>v (escape_char, replace_char). py_replace escape_char replace_char v) s
        (zip ESCAPE_CHARS REPLACE_CHARS) = concat (map escape_sequence s)"
proof -
  have "s = concat (map (\<lambda>x. [x]) s)"
    by (induction s) simp_all
  then have "foldl (\<lambda>v (escape_char, replace_char). py_replace escape_char replace_char v) s
        (zip ESCAPE_CHARS REPLACE_CHARS) =
      foldl (\<lambda>v (escape_char, replace_char). py_replace escape_char replace_char v)
        (concat (map (\<lambda>x. [x]) s)) (zip ESCAPE_CHARS REPLACE_CHARS)"
    by simp
  also have "\<dots> = concat (map escape_sequence s)"
    by (simp only: ESCAPE_CHARS_def REPLACE_CHARS_def zip_Cons_Cons zip_Nil foldl_Cons foldl_Nil
          prod.case py_replace_concat_map escape_one)
  finally show ?thesis .
qed

text \<open>
  Trimming removes whitespace at both ends and nothing else: what remains neither starts
  nor ends with whitespace.
\<close>

lemma py_strip_decompose:
  "\<exists>a b. s = a @ py_strip s @ b \<and> list_all py_isspace a \<and> list_all py_isspace b"
proof -
  let ?t = "dropWhile py_isspace s"
  have "s = takeWhile py_isspace s @ ?t"
    by simp
  moreover have "?t = rev (dropWhile py_isspace (rev ?t)) @ rev (takeWhile py_isspace (rev ?t))"
    by (metis rev_append rev_rev_ident takeWhile_dropWhile_id)
  moreover have "list_all py_isspace (takeWhile py_isspace s)"
    by (simp add: list_all_iff) (meson set_takeWhileD)
  moreover have "list_all py_isspace (rev (takeWhile py_isspace (rev ?t)))"
    by (simp add: list_all_iff) (meson set_takeWhileD)
  ultimately show ?thesis
    unfolding py_strip_def by metis
qed

lemma py_strip_ends:
  assumes "py_strip s \<noteq> []"
  shows "\<not> py_isspace (hd (py_strip s)) \<and> \<not> py_isspace (last (py_strip s))"
proof -
  let ?t = "dropWhile py_isspace s"
  let ?u = "dropWhile py_isspace (rev ?t)"
  from assms have u: "?u \<noteq> []"
    by (simp add: py_strip_def)
  then have l: "\<not> py_isspace (hd ?u)"
    by (rule hd_dropWhile)
  have t: "?t \<noteq> []"
  proof
    assume "?t = []"
    then have "?u = dropWhile py_isspace (rev [])" by (simp only:)
    then have "?u = []" by (simp only: rev.simps dropWhile.simps)
    with u show False by simp
  qed
  then have h: "\<not> py_isspace (hd ?t)"
    by (rule hd_dropWhile)
  have "?t = rev ?u @ rev (takeWhile py_isspace (rev ?t))"
    by (metis rev_append rev_rev_ident takeWhile_dropWhile_id)
  with u have "hd ?t = hd (rev ?u)"
    by (metis hd_append2 rev_is_Nil_conv)
  with h l u show ?thesis
    by (simp add: py_strip_def last_rev)
qed

text \<open>
  Claim C7, as stated: \<open>escape\<close> on a field holding \<open>He said "hi"\<close> followed by a newline
  yields \<open>He said \\"hi\\"\\n\<close>. It does not: the value is trimmed before the replacements,
  and the newline at the end is whitespace.
\<close>

theorem escape_trailing_newline_counterexample:
  "get_escaped_value [''name'' \<mapsto> PStr (quoted_hi @ [CHR 0x0A])] ''name''
     \<noteq> PStr (escaped_hi @ [CHR 0x5C, CHR ''n''])"
  by code_simp

text \<open>
  Claim C7, amended: \<open>escape\<close> on a field holding \<open>He said "hi"\<close> followed by a newline
  yields \<open>He said \\"hi\\"\<close>, each double quote written as backslash and quote and the
  trailing newline trimmed away; a newline inside the value, as in \<open>He said "hi"\<close>, newline,
  \<open>bye\<close>, is written as the two characters backslash and \<open>n\<close>.
\<close>

theorem escape_example:
  "get_escaped_value [''name'' \<mapsto> PStr (quoted_hi @ [CHR 0x0A])] ''name'' = PStr escaped_hi
   \<and> get_escaped_value [''name'' \<mapsto> PStr (quoted_hi @ [CHR 0x0A] @ ''bye'')] ''name''
       = PStr (escaped_hi @ [CHR 0x5C, CHR ''n''] @ ''bye'')"
  by code_simp

text \<open>
  Claim C8: \<open>escape(record, fieldName)\<close> is false when the field is absent; for a non-empty
  string it is the trimmed value in which each double quote, newline, carriage return, tab,
  backspace and form feed is replaced by its two-character sequence, the replacements of
  the source, made one after the other, amounting to the replacement of each character on
  its own; the backslash stays as it is; every other value is returned unchanged.
\<close>

theorem get_escaped_value_spec:
  "get_escaped_value r field = escape_spec r field \<and> escape_sequence (CHR 0x5C) = [CHR 0x5C]"
  by (simp add: get_escaped_value_def escape_spec_def getattr_default_def escape_fold
        escape_sequence_def split: option.splits pyval.splits)

section \<open>Request construction\<close>

lemma getattr_prepare_post:
  "getattr_prepare (''_prepare_data_for_post_'' @ t) =
     (if t = ''request'' then Some prepare_data_for_post_request
      else if t = ''graphql'' then Some prepare_data_for_post_graphql else None)"
  by (simp add: getattr_prepare_def)

lemma prepare_payload_cases:
  "prepare_payload env self r c =
     (if request_type self = ''graphql'' then prepare_data_for_post_graphql env self r c
      else prepare_data_for_post_request env self r c)"
  by (simp add: prepare_payload_def hasattr_prepare_def getattr_prepare_post Let_def)
     (simp add: getattr_prepare_def)

text \<open>
  Claim C9: for a POST whose request type is \<open>slack\<close>, or any value other than the two the
  class has a method for, the choice of the body raises nothing of its own: the body is the
  one built for the type \<open>request\<close>, the template rendered with the context and the record
  and encoded as UTF-8 (or the error of the rendering), and the whole POST is the POST of
  the same action with type \<open>request\<close>.
\<close>

theorem post_body_degrades:
  assumes "request_type self \<noteq> ''graphql''"
  shows "prepare_payload env self r c = prepare_payload env (self\<lparr>request_type := ''request''\<rparr>) r c
       \<and> prepare_payload env self r c =
           (case render env (body_template self) (c(''record'' \<mapsto> CRecord r)) of
              Inl e \<Rightarrow> Inl e
            | Inr data \<Rightarrow> Inr (PBytes (utf8_encode data)))
       \<and> execute_webhook_post_request env self r c w =
           execute_webhook_post_request env (self\<lparr>request_type := ''request''\<rparr>) r c w"
proof -
  have generic: "prepare_payload env self r c = prepare_data_for_post_request env self r c"
    using assms by (simp add: prepare_payload_cases)
  have same: "prepare_payload env (self\<lparr>request_type := ''request''\<rparr>) r c
      = prepare_payload env self r c"
    using assms by (simp add: prepare_payload_cases prepare_data_for_post_request_def)
  have hdrs: "get_webhook_headers env (self\<lparr>request_type := ''request''\<rparr>)
      = get_webhook_headers env self"
    by (simp add: get_webhook_headers_def)
  have ep: "endpoint (self\<lparr>request_type := ''request''\<rparr>) = endpoint self"
    by simp
  have "execute_webhook_post_request env (self\<lparr>request_type := ''request''\<rparr>) r c w
      = execute_webhook_post_request env self r c w"
    unfolding execute_webhook_post_request_def hdrs same ep by (rule refl)
  then show ?thesis
    by (simp add: same) (simp add: generic prepare_data_for_post_request_def)
qed

theorem post_body_degrades_witness:
  "request_type (test_action\<lparr>request_type := ''slack''\<rparr>) \<noteq> ''graphql''
   \<and> prepare_payload (test_env (Inl ConnectionError)) (test_action\<lparr>request_type := ''slack''\<rparr>)
        Map.empty Map.empty = Inr (PBytes (utf8_encode ''ping''))"
proof -
  have h: "request_type (test_action\<lparr>request_type := ''slack''\<rparr>) \<noteq> ''graphql''"
    by simp
  have "prepare_payload (test_env (Inl ConnectionError)) (test_action\<lparr>request_type := ''slack''\<rparr>)
          Map.empty Map.empty
        = (case render (test_env (Inl ConnectionError))
                  (body_template (test_action\<lparr>request_type := ''slack''\<rparr>))
                  (Map.empty(''record'' \<mapsto> CRecord Map.empty)) of
             Inl e \<Rightarrow> Inl e
           | Inr data \<Rightarrow> Inr (PBytes (utf8_encode data)))"
    using post_body_degrades [OF h, of "test_env (Inl ConnectionError)" Map.empty Map.empty test_world]
    by blast
  also have "\<dots> = Inr (PBytes (utf8_encode ''ping''))"
    by (simp add: test_env_def test_action_def)
  finally show ?thesis
    using h by blast
qed

section \<open>Status classification\<close>



lemma status_code_decode_error:
  "type self = ''graphql'' \<Longrightarrow> text resp \<noteq> [] \<Longrightarrow> json_loads env (text resp) = Inl e
     \<Longrightarrow> get_body_status_code env self resp = Inl e"
  by (simp add: get_body_status_code_def)

lemma scan_data_append: "scan_data st (xs @ ys) = scan_data (scan_data st xs) ys"
  by (simp add: scan_data_def)

lemma scan_items_found:
  "distinct (map fst kvs) \<Longrightarrow> map_of kvs ''statusCode'' = Some v
     \<Longrightarrow> foldl (\<lambda>st (k, v). if k = ''statusCode'' then v else st) st kvs = v"
proof (induction kvs arbitrary: st rule: rev_induct)
  case Nil
  then show ?case by simp
next
  case (snoc kv kvs)
  obtain k u where kv: "kv = (k, u)" by (cases kv)
  show ?case
  proof (cases "k = ''statusCode''")
    case True
    with snoc.prems kv show ?thesis
      by (auto simp: map_of_eq_None_iff[symmetric] map_add_Some_iff)
  next
    case False
    with snoc.prems kv have "map_of kvs ''statusCode'' = Some v"
      by (auto simp: map_add_Some_iff)
    with snoc kv False show ?thesis by simp
  qed
qed

text \<open>The last object with a key \<open>statusCode\<close> decides.\<close>

lemma scan_data_last:
  "distinct (map fst kvs) \<Longrightarrow> map_of kvs ''statusCode'' = Some v
     \<Longrightarrow> scan_data st (items @ [(u, PDict kvs)]) = v"
  by (simp add: scan_data_def scan_value_def scan_items_found)

text \<open>
  Claim C3: for an action whose request type is \<open>graphql\<close>, a response with HTTP status 200
  and a body whose \<open>data\<close> holds an object with \<open>statusCode\<close> 404 is classified 404 and the
  attempt fails. The code decides by the field \<open>type\<close>, which is \<open>ir.actions.server\<close> for a
  server action, not by \<open>request_type\<close>: the classified status is 200 and the attempt
  succeeds. Were \<open>type\<close> equal to \<open>graphql\<close>, the status would be 404.
\<close>

theorem graphql_request_type_not_classified:
  "get_body_status_code (test_env (Inr (answer_of 200 doc_404)))
       (test_action\<lparr>request_type := ''graphql''\<rparr>) (answer_of 200 doc_404) = Inr (PInt 200)
   \<and> outcome_of (test_env (Inr (answer_of 200 doc_404)))
       (test_action\<lparr>request_type := ''graphql''\<rparr>) Map.empty None test_world = Succeeded
   \<and> get_body_status_code (test_env (Inr (answer_of 200 doc_404)))
       (test_action\<lparr>type := ''graphql''\<rparr>) (answer_of 200 doc_404) = Inr (PInt 404)"
  by code_simp



section \<open>The outcome of an attempt\<close>

lemma requests_call_frame:
  "requests_call env q w = (res, w') \<Longrightarrow> logs w' = logs w \<and> diag w' = diag w \<and> jobs w' = jobs w"
  by (auto simp: requests_call_def)

lemma get_request_frame:
  "execute_webhook_get_request env self r c w = (res, w')
     \<Longrightarrow> logs w' = logs w \<and> diag w' = diag w \<and> jobs w' = jobs w"
  by (auto simp: execute_webhook_get_request_def requests_call_def split: sum.splits)

lemma post_request_frame:
  "execute_webhook_post_request env self r c w = (res, w')
     \<Longrightarrow> logs w' = logs w \<and> diag w' = diag w \<and> jobs w' = jobs w"
  by (auto simp: execute_webhook_post_request_def requests_call_def split: sum.splits)

lemma call_request_method_frame:
  "call_request_method env self r c w = (res, w')
     \<Longrightarrow> logs w' = logs w \<and> diag w' = diag w \<and> jobs w' = jobs w"
  by (auto simp: call_request_method_def getattr_execute_def split: if_splits
        dest: get_request_frame post_request_frame)

lemma raise_for_status_ok:
  "(raise_for_status resp = Inr u) = (\<not> (400 \<le> status_code resp \<and> status_code resp < 600))"
  by (simp add: raise_for_status_def)

lemma try_block_succeeds:
  "(fst (fst (try_block env self r c w)) = None) =
     (\<exists>resp body w'. call_request_method env self r c w = (Inr (resp, body), w')
        \<and> \<not> (400 \<le> status_code resp \<and> status_code resp < 600)
        \<and> (\<exists>status. get_body_status_code env self resp = Inr status \<and> py_eq_int status 200))"
  by (auto simp: try_block_def raise_for_status_def split: prod.splits sum.splits)

lemma try_block_success_result:
  assumes "call_request_method env self r c w = (Inr (resp, body), w')"
    and "fst (fst (try_block env self r c w)) = None"
  shows "try_block env self r c w = ((None, Response resp, body), w')"
  using assms by (auto simp: try_block_def split: sum.splits if_splits)

lemma try_block_frame:
  "try_block env self r c w = (res, w')
     \<Longrightarrow> logs w' = logs w \<and> diag w' = diag w \<and> jobs w' = jobs w"
  by (auto simp: try_block_def split: prod.splits sum.splits if_splits
        dest: call_request_method_frame)

text \<open>
  Claim C4: an attempt ends \<open>Succeeded\<close> exactly when the request function returned a
  response, the status of the response is no error status (not from 400 to 599) and the
  classified status equals 200; then, if \<open>log_webhook_calls\<close> is set, exactly one row is added
  to the log, and its status is the HTTP status of the response, not the classified one.
\<close>

theorem succeeded_iff_and_logged:
  "((outcome_of env self r ec w = Succeeded) =
      (\<exists>resp body w'.
          call_request_method env self r (context_of env self r ec) w = (Inr (resp, body), w')
        \<and> \<not> (400 \<le> status_code resp \<and> status_code resp < 600)
        \<and> (\<exists>status. get_body_status_code env self resp = Inr status \<and> py_eq_int status 200)))
   \<and> (outcome_of env self r ec w = Succeeded \<and> log_webhook_calls self \<longrightarrow>
        (\<exists>resp body w'.
            call_request_method env self r (context_of env self r ec) w = (Inr (resp, body), w')
          \<and> execute_webhook env self r ec w =
              (Inr (),
               w'\<lparr>logs := logs w @
                  [\<lparr>v_webhook_type = ''outgoing'',
                    v_webhook = name self @ '' ('' @ self_str self @ '')'',
                    v_endpoint = endpoint self,
                    v_headers = headers self,
                    v_body = ustr env body,
                    v_response = ustr env (PBytes (content resp)),
                    v_status = Some (status_code resp)\<rparr>]\<rparr>)))"
proof -
  let ?c = "context_of env self r ec"
  have iff: "(outcome_of env self r ec w = Succeeded) = (fst (fst (try_block env self r ?c w)) = None)"
    by (simp add: outcome_of_def split: option.splits)
  have logged: "\<exists>resp body w'.
            call_request_method env self r ?c w = (Inr (resp, body), w')
          \<and> execute_webhook env self r ec w =
              (Inr (),
               w'\<lparr>logs := logs w @
                  [\<lparr>v_webhook_type = ''outgoing'',
                    v_webhook = name self @ '' ('' @ self_str self @ '')'',
                    v_endpoint = endpoint self,
                    v_headers = headers self,
                    v_body = ustr env body,
                    v_response = ustr env (PBytes (content resp)),
                    v_status = Some (status_code resp)\<rparr>]\<rparr>)"
    if ok: "fst (fst (try_block env self r ?c w)) = None" and flag: "log_webhook_calls self"
  proof -
    from ok obtain resp body w' where
      call: "call_request_method env self r ?c w = (Inr (resp, body), w')"
      unfolding try_block_succeeds by blast
    have tb: "try_block env self r ?c w = ((None, Response resp, body), w')"
      by (rule try_block_success_result [OF call ok])
    have "logs w' = logs w"
      using call_request_method_frame [OF call] by simp
    then have "execute_webhook env self r ec w =
              (Inr (),
               w'\<lparr>logs := logs w @
                  [\<lparr>v_webhook_type = ''outgoing'',
                    v_webhook = name self @ '' ('' @ self_str self @ '')'',
                    v_endpoint = endpoint self,
                    v_headers = headers self,
                    v_body = ustr env body,
                    v_response = ustr env (PBytes (content resp)),
                    v_status = Some (status_code resp)\<rparr>]\<rparr>)"
      using flag by (simp add: execute_webhook_def tb webhook_logging_def create_def)
    with call show ?thesis by blast
  qed
  show ?thesis
    unfolding iff using try_block_succeeds [of env self r ?c w] logged by blast
qed


text \<open>
  Claim C4 at a response with HTTP status 201 whose body classifies as 200 (the field
  \<open>type\<close> being \<open>graphql\<close>): the attempt succeeds and the one row logged has status 201.
\<close>

theorem succeeded_iff_and_logged_witness:
  "outcome_of (test_env (Inr (answer_of 201 doc_200)))
       (test_action\<lparr>type := ''graphql'', log_webhook_calls := True\<rparr>) Map.empty None test_world
     = Succeeded
   \<and> log_webhook_calls (test_action\<lparr>type := ''graphql'', log_webhook_calls := True\<rparr>)
   \<and> map v_status (logs (snd (execute_webhook (test_env (Inr (answer_of 201 doc_200)))
         (test_action\<lparr>type := ''graphql'', log_webhook_calls := True\<rparr>) Map.empty None test_world)))
     = [Some 201]"
proof -
  let ?E = "test_env (Inr (answer_of 201 doc_200))"
  let ?A = "test_action\<lparr>type := ''graphql'', log_webhook_calls := True\<rparr>"
  have h1: "outcome_of ?E ?A Map.empty None test_world = Succeeded"
    by code_simp
  have h2: "log_webhook_calls ?A"
    by simp
  from succeeded_iff_and_logged [of ?E ?A Map.empty None test_world] h1 h2
  obtain resp body w' where
    call: "call_request_method ?E ?A Map.empty (context_of ?E ?A Map.empty None) test_world
        = (Inr (resp, body), w')"
    and ex: "logs (snd (execute_webhook ?E ?A Map.empty None test_world)) =
        logs test_world @
                  [\<lparr>v_webhook_type = ''outgoing'',
                    v_webhook = name ?A @ '' ('' @ self_str ?A @ '')'',
                    v_endpoint = endpoint ?A,
                    v_headers = headers ?A,
                    v_body = ustr ?E body,
                    v_response = ustr ?E (PBytes (content resp)),
                    v_status = Some (status_code resp)\<rparr>]"
    by force
  have "fst (call_request_method ?E ?A Map.empty (context_of ?E ?A Map.empty None) test_world)
      = Inr (answer_of 201 doc_200, PBytes (utf8_encode ''ping''))"
    by code_simp
  with call have "resp = answer_of 201 doc_200"
    by simp
  then have "status_code resp = 201"
    by (simp add: answer_of_def)
  with ex have "map v_status (logs (snd (execute_webhook ?E ?A Map.empty None test_world))) = [Some 201]"
    by (simp add: test_world_def)
  with h1 h2 show ?thesis
    by blast
qed

lemma execute_webhook_failed:
  assumes "fst (fst (try_block env self r (context_of env self r ec) w)) = Some e"
  shows "\<exists>resp body w'. try_block env self r (context_of env self r ec) w = ((Some e, resp, body), w')
     \<and> execute_webhook env self r ec w =
         webhook_logging env self body (Exception e) (w'\<lparr>diag := diag w @ [diagnostic e]\<rparr>)"
proof -
  obtain x resp body w' where tb:
    "try_block env self r (context_of env self r ec) w = ((x, resp, body), w')"
    by (metis prod.exhaust)
  with assms have x: "x = Some e" by simp
  have "diag w' = diag w"
    using try_block_frame [OF tb] by simp
  then show ?thesis
    using tb x by (simp add: execute_webhook_def handle_exception_def)
qed

lemma failed_flag_off:
  assumes "outcome_of env self r ec w = Failed" and "\<not> log_webhook_calls self"
  shows "fst (execute_webhook env self r ec w) = Inr ()
     \<and> logs (snd (execute_webhook env self r ec w)) = logs w
     \<and> (\<exists>e. diag (snd (execute_webhook env self r ec w)) = diag w @ [diagnostic e])"
proof -
  from assms(1) obtain e where
    "fst (fst (try_block env self r (context_of env self r ec) w)) = Some e"
    by (auto simp: outcome_of_def split: option.splits)
  from execute_webhook_failed [OF this] obtain resp body w' where
    tb: "try_block env self r (context_of env self r ec) w = ((Some e, resp, body), w')"
    and ex: "execute_webhook env self r ec w =
         webhook_logging env self body (Exception e) (w'\<lparr>diag := diag w @ [diagnostic e]\<rparr>)"
    by blast
  have "logs w' = logs w"
    using try_block_frame [OF tb] by simp
  then show ?thesis
    using assms(2) by (auto simp: ex webhook_logging_def)
qed

text \<open>With logging switched on, the logging of a failure raises and creates no entry.\<close>

lemma failed_flag_on:
  assumes "outcome_of env self r ec w = Failed" and "log_webhook_calls self"
  shows "fst (execute_webhook env self r ec w) = Inl AttributeError
     \<and> logs (snd (execute_webhook env self r ec w)) = logs w"
proof -
  from assms(1) obtain e where
    "fst (fst (try_block env self r (context_of env self r ec) w)) = Some e"
    by (auto simp: outcome_of_def split: option.splits)
  from execute_webhook_failed [OF this] obtain resp body w' where
    tb: "try_block env self r (context_of env self r ec) w = ((Some e, resp, body), w')"
    and ex: "execute_webhook env self r ec w =
         webhook_logging env self body (Exception e) (w'\<lparr>diag := diag w @ [diagnostic e]\<rparr>)"
    by blast
  have "logs w' = logs w"
    using try_block_frame [OF tb] by simp
  then show ?thesis
    using assms(2) by (simp add: ex webhook_logging_def)
qed

lemma succeeded_logs:
  assumes "outcome_of env self r ec w = Succeeded"
  shows "fst (execute_webhook env self r ec w) = Inr ()
     \<and> (\<exists>vs. logs (snd (execute_webhook env self r ec w)) = logs w @ vs
           \<and> length vs = (if log_webhook_calls self then 1 else 0))"
proof -
  let ?c = "context_of env self r ec"
  from assms have ok: "fst (fst (try_block env self r ?c w)) = None"
    by (simp add: outcome_of_def split: option.splits)
  then obtain resp body w' where
    call: "call_request_method env self r ?c w = (Inr (resp, body), w')"
    unfolding try_block_succeeds by blast
  have tb: "try_block env self r ?c w = ((None, Response resp, body), w')"
    by (rule try_block_success_result [OF call ok])
  have "logs w' = logs w"
    using call_request_method_frame [OF call] by simp
  then show ?thesis
    by (simp add: execute_webhook_def tb webhook_logging_def create_def)
qed

lemma outcome_cases: "outcome_of env self r ec w = Succeeded \<or> outcome_of env self r ec w = Failed"
  by (cases "outcome_of env self r ec w") simp_all

text \<open>
  Claim C1, as stated: every failed attempt creates exactly one log entry, whatever
  \<open>log_webhook_calls\<close> is. With the flag off, a failed attempt creates none.
\<close>

theorem failure_without_flag_counterexample:
  "outcome_of (test_env (Inl ConnectionError)) test_action Map.empty None test_world = Failed
   \<and> logs (snd (execute_webhook (test_env (Inl ConnectionError)) test_action Map.empty None
        test_world)) = logs test_world"
  by code_simp

text \<open>
  Claim C1, amended: a failed attempt with \<open>log_webhook_calls\<close> off creates no log entry, as
  the failure path logs through the same guarded \<open>_webhook_logging\<close> as the success path; it
  writes one diagnostic and raises nothing. No attempt creates more than one entry.
\<close>

theorem failed_without_flag_logs_nothing:
  "(outcome_of env self r ec w = Failed \<and> \<not> log_webhook_calls self \<longrightarrow>
      fst (execute_webhook env self r ec w) = Inr ()
      \<and> logs (snd (execute_webhook env self r ec w)) = logs w
      \<and> (\<exists>e. diag (snd (execute_webhook env self r ec w)) = diag w @ [diagnostic e]))
   \<and> (\<exists>vs. logs (snd (execute_webhook env self r ec w)) = logs w @ vs \<and> length vs \<le> 1)"
proof -
  have "\<exists>vs. logs (snd (execute_webhook env self r ec w)) = logs w @ vs \<and> length vs \<le> 1"
  proof (cases "outcome_of env self r ec w")
    case Succeeded
    from succeeded_logs [OF this] show ?thesis
      by (metis le_refl zero_le_one)
  next
    case Failed
    then have "logs (snd (execute_webhook env self r ec w)) = logs w @ []"
      using failed_flag_off [of env self r ec w] failed_flag_on [of env self r ec w]
      by (cases "log_webhook_calls self") simp_all
    then show ?thesis
      by (metis list.size(3) zero_le_one)
  qed
  then show ?thesis
    using failed_flag_off [of env self r ec w] by blast
qed

text \<open>
  The amended claim C1 at a connection error with the flag off.
\<close>

theorem failed_without_flag_logs_nothing_witness:
  "outcome_of (test_env (Inl ConnectionError)) test_action Map.empty None test_world = Failed
   \<and> \<not> log_webhook_calls test_action
   \<and> execute_webhook (test_env (Inl ConnectionError)) test_action Map.empty None test_world
      = (Inr (), snd (execute_webhook (test_env (Inl ConnectionError)) test_action Map.empty None
            test_world))
   \<and> logs (snd (execute_webhook (test_env (Inl ConnectionError)) test_action Map.empty None
        test_world)) = []"
proof -
  have h1: "outcome_of (test_env (Inl ConnectionError)) test_action Map.empty None test_world = Failed"
    by code_simp
  have h2: "\<not> log_webhook_calls test_action"
    by (simp add: test_action_def)
  have "logs test_world = []"
    by (simp add: test_world_def)
  with h1 h2 show ?thesis
    using failed_without_flag_logs_nothing
      [of "test_env (Inl ConnectionError)" test_action Map.empty None test_world]
    by (metis prod.collapse)
qed

text \<open>
  Claim C5: the entry logged for a failed attempt records the text of the exception or the
  response body, and the HTTP status when there is a response. With \<open>log_webhook_calls\<close> on
  and an answer of status 500, \<open>_handle_exception\<close> gives the exception object to
  \<open>_webhook_logging\<close>, reading \<open>content\<close> of it raises \<open>AttributeError\<close>, and no entry is created;
  nor has the exception object a \<open>status_code\<close> to record.
\<close>

theorem failure_log_raises:
  "fst (execute_webhook (test_env (Inr (answer_of 500 ''oops'')))
       (test_action\<lparr>log_webhook_calls := True\<rparr>) Map.empty None test_world) = Inl AttributeError
   \<and> logs (snd (execute_webhook (test_env (Inr (answer_of 500 ''oops'')))
       (test_action\<lparr>log_webhook_calls := True\<rparr>) Map.empty None test_world)) = []
   \<and> diag (snd (execute_webhook (test_env (Inr (answer_of 500 ''oops'')))
       (test_action\<lparr>log_webhook_calls := True\<rparr>) Map.empty None test_world))
      = [''HTTPError during request'']
   \<and> map payload (sent (snd (execute_webhook (test_env (Inr (answer_of 500 ''oops'')))
       (test_action\<lparr>log_webhook_calls := True\<rparr>) Map.empty None test_world)))
      = [PBytes (utf8_encode ''ping'')]
   \<and> getattr_status_code (Exception HTTPError) = None"
  by code_simp


section \<open>Batches\<close>

lemma execute_webhook_flag_off:
  assumes "\<not> log_webhook_calls self"
  shows "fst (execute_webhook env self r ec w) = Inr ()"
  using outcome_cases [of env self r ec w] succeeded_logs [of env self r ec w]
    failed_flag_off [of env self r ec w] assms
  by blast

lemma for_records_flag_off:
  assumes "\<not> log_webhook_calls self"
  shows "for_records env self ec rs w = (Inr (), foldl (step_record env self ec) w rs)"
proof (induction rs arbitrary: w)
  case Nil
  show ?case by simp
next
  case (Cons r rs)
  show ?case
  proof (cases "delay_execution self")
    case True
    then show ?thesis
      by (simp add: Cons.IH step_record_def)
  next
    case False
    obtain res w' where ex: "execute_webhook env self r (Some ec) w = (res, w')"
      by (metis prod.exhaust)
    with execute_webhook_flag_off [OF assms, of env r "Some ec" w] have "res = Inr ()"
      by simp
    with False ex show ?thesis
      by (simp add: Cons.IH step_record_def)
  qed
qed

text \<open>
  With \<open>log_webhook_calls\<close> off no attempt raises, whatever fails while the request is built,
  sent or classified, and the batch processes every record in turn and returns the action
  of the context.
\<close>

lemma batch_completes_without_flag:
  assumes "\<not> log_webhook_calls self" and "records_of ec = Inr rs"
  shows "run_action_custom_webhook_multi env self ec w
           = (Inr (ec ''action''), foldl (step_record env self ec) w rs)
       \<and> fst (execute_webhook env self r ec' w') = Inr ()"
  using assms
  by (simp add: run_action_custom_webhook_multi_def for_records_flag_off execute_webhook_flag_off)

text \<open>
  The only exception that ever leaves \<open>_execute_webhook\<close> is the \<open>AttributeError\<close> of the
  logging of a failed attempt with \<open>log_webhook_calls\<close> on.
\<close>

lemma only_logging_defect_escapes:
  assumes "fst (execute_webhook env self r ec w) = Inl e"
  shows "e = AttributeError \<and> log_webhook_calls self \<and> outcome_of env self r ec w = Failed"
proof (cases "outcome_of env self r ec w")
  case Succeeded
  from succeeded_logs [OF this] assms show ?thesis
    by simp
next
  case Failed
  show ?thesis
  proof (cases "log_webhook_calls self")
    case True
    with failed_flag_on [OF Failed True] assms Failed show ?thesis
      by simp
  next
    case False
    with failed_flag_off [OF Failed False] assms show ?thesis
      by simp
  qed
qed

text \<open>
  Claim C2: every error of a record's attempt is caught at the boundary of the attempt, no
  exception reaches the caller, and the remaining records of the batch are processed. With
  \<open>log_webhook_calls\<close> on and a network that refuses every connection, the connection error
  of the first of two records is caught, but the logging of that failure raises
  \<open>AttributeError\<close>, which leaves \<open>_execute_webhook\<close> and the loop: the caller gets the
  exception and the second record is never attempted. The same batch with the flag off
  attempts both records and returns.
\<close>

theorem batch_aborted_by_logging_failure:
  "map_sum id (\<lambda>u. ()) (fst (run_action_custom_webhook_multi (test_env (Inl ConnectionError))
        (test_action\<lparr>log_webhook_calls := True\<rparr>)
        [''records'' \<mapsto> CRecords [Map.empty, Map.empty]] test_world)) = Inl AttributeError
   \<and> length (sent (snd (run_action_custom_webhook_multi (test_env (Inl ConnectionError))
        (test_action\<lparr>log_webhook_calls := True\<rparr>)
        [''records'' \<mapsto> CRecords [Map.empty, Map.empty]] test_world))) = 1
   \<and> map_sum id (\<lambda>u. ()) (fst (run_action_custom_webhook_multi (test_env (Inl ConnectionError))
        test_action [''records'' \<mapsto> CRecords [Map.empty, Map.empty]] test_world)) = Inr ()
   \<and> length (sent (snd (run_action_custom_webhook_multi (test_env (Inl ConnectionError))
        test_action [''records'' \<mapsto> CRecords [Map.empty, Map.empty]] test_world))) = 2"
  by code_simp

section \<open>The headers\<close>

text \<open>
  Reading back what \<open>repr\<close> writes: a hexadecimal escape, a character, a string literal,
  the items of a display, the display.
\<close>

lemma unhex_hex_digit: "n < 16 \<Longrightarrow> unhex (hex_digit n) = Some n"
  by (simp add: unhex_def hex_digit_def Let_def)

lemma hex_value: "char_of (16 * (of_char c div 16) + of_char c mod 16 :: nat) = c"
  by simp

lemma eval_body_quote: "eval_str_body q (q # rest) = Some ([], rest)"
  by (cases rest) simp_all

lemma eval_body_plain:
  "c \<noteq> q \<Longrightarrow> c \<noteq> CHR 0x5C \<Longrightarrow> py_isprintable c \<Longrightarrow> t \<noteq> []
     \<Longrightarrow> eval_str_body q (c # t) = map_option (apfst ((#) c)) (eval_str_body q t)"
  by (cases t) simp_all

lemma eval_body_hex:
  assumes "q \<noteq> CHR 0x5C"
  shows "eval_str_body q
      (CHR 0x5C # CHR ''x'' # hex_digit (of_char c div 16) # hex_digit (of_char c mod 16) # t)
     = map_option (apfst ((#) c)) (eval_str_body q t)"
proof -
  have a: "unhex (hex_digit (of_char c div 16)) = Some (of_char c div 16)"
    by (rule unhex_hex_digit) (simp add: less_mult_imp_div_less)
  have b: "unhex (hex_digit (of_char c mod 16)) = Some (of_char c mod 16)"
    by (rule unhex_hex_digit) simp
  show ?thesis
    using assms by (simp add: a b)
qed

lemma eval_body_repr_char:
  assumes "q = CHR 0x27 \<or> q = CHR 0x22" and "t \<noteq> []"
  shows "eval_str_body q (repr_char q c @ t) = map_option (apfst ((#) c)) (eval_str_body q t)"
proof -
  have q: "q \<noteq> CHR 0x5C" using assms(1) by auto
  consider (esc) "c = q \<or> c = CHR 0x5C"
    | (tab) "c = CHR 0x09" | (lf) "c = CHR 0x0A" | (cr) "c = CHR 0x0D"
    | (hex) "c \<noteq> q" "c \<noteq> CHR 0x5C" "c \<noteq> CHR 0x09" "c \<noteq> CHR 0x0A" "c \<noteq> CHR 0x0D" "\<not> py_isprintable c"
    | (plain) "c \<noteq> q" "c \<noteq> CHR 0x5C" "c \<noteq> CHR 0x09" "c \<noteq> CHR 0x0A" "c \<noteq> CHR 0x0D" "py_isprintable c"
    by blast
  then show ?thesis
  proof cases
    case esc
    then show ?thesis using assms(1) by (auto simp: repr_char_def)
  next
    case tab
    then show ?thesis using assms(1) by (auto simp: repr_char_def)
  next
    case lf
    then show ?thesis using assms(1) by (auto simp: repr_char_def)
  next
    case cr
    then show ?thesis using assms(1) by (auto simp: repr_char_def)
  next
    case hex
    then have "repr_char q c =
        [CHR 0x5C, CHR ''x'', hex_digit (of_char c div 16), hex_digit (of_char c mod 16)]"
      by (simp add: repr_char_def)
    then show ?thesis
      by (simp only: append_Cons append_Nil eval_body_hex [OF q])
  next
    case plain
    then show ?thesis using assms(2) by (simp add: repr_char_def eval_body_plain)
  qed
qed

lemma eval_body_repr:
  assumes "q = CHR 0x27 \<or> q = CHR 0x22"
  shows "eval_str_body q (concat (map (repr_char q) s) @ q # rest) = Some (s, rest)"
proof (induction s)
  case Nil
  show ?case by (simp add: eval_body_quote)
next
  case (Cons c s)
  have "eval_str_body q (repr_char q c @ (concat (map (repr_char q) s) @ q # rest))
      = map_option (apfst ((#) c)) (eval_str_body q (concat (map (repr_char q) s) @ q # rest))"
    by (rule eval_body_repr_char [OF assms]) simp
  then show ?case
    by (simp add: Cons.IH)
qed

lemma repr_quote_cases: "repr_quote s = CHR 0x27 \<or> repr_quote s = CHR 0x22"
  by (simp add: repr_quote_def)

lemma eval_literal_repr: "eval_str_literal (repr_str s @ rest) = Some (s, rest)"
  using repr_quote_cases [of s] eval_body_repr [of "repr_quote s" s rest]
  by (auto simp: eval_str_literal_def repr_str_def)


lemma repr_str_not_Nil: "repr_str s \<noteq> []"
  by (simp add: repr_str_def)

lemma eval_items_repr:
  assumes "d \<noteq> []" and "length d \<le> n"
  shows "eval_items n (join '', '' (map (\<lambda>(k, v). repr_str k @ '': '' @ repr_str v) d) @ ''}'')
     = Some d"
  using assms
proof (induction d arbitrary: n)
  case Nil
  then show ?case by simp
next
  case (Cons x d)
  obtain k v where x: "x = (k, v)" by (cases x)
  from Cons.prems obtain m where n: "n = Suc m" and m: "length d \<le> m"
    by (cases n) simp_all
  show ?case
  proof (cases d)
    case Nil
    then show ?thesis
      by (simp add: x n eval_literal_repr)
  next
    case (Cons y ys)
    with Cons.IH [of m] m have
      "eval_items m (join '', '' (map (\<lambda>(k, v). repr_str k @ '': '' @ repr_str v) (y # ys)) @ ''}'')
        = Some (y # ys)"
      by simp
    with Cons show ?thesis
      by (simp add: x n eval_literal_repr)
  qed
qed

lemma length_join_items:
  "length d \<le> length (join '', '' (map (\<lambda>(k, v). repr_str k @ '': '' @ repr_str v) d))"
proof (induction d)
  case Nil
  show ?case by simp
next
  case (Cons x d)
  then show ?case
    by (cases d) (auto split: prod.splits)
qed

lemma join_items_head:
  "d \<noteq> [] \<Longrightarrow> \<exists>q t. join '', '' (map (\<lambda>(k, v). repr_str k @ '': '' @ repr_str v) d) = q # t
      \<and> (q = CHR 0x27 \<or> q = CHR 0x22)"
proof (cases d)
  case Nil
  assume "d \<noteq> []"
  with Nil show ?thesis by simp
next
  case (Cons x ys)
  obtain k v where x: "x = (k, v)" by (cases x)
  from Cons x repr_quote_cases [of k] show ?thesis
    by (cases ys) (auto simp: repr_str_def)
qed

lemma eval_dict_repr:
  assumes "distinct (map fst d)"
  shows "eval_str_dict (repr_str_dict d) = Some d"
proof (cases "d = []")
  case True
  then show ?thesis
    by (simp add: eval_str_dict_def repr_str_dict_def)
next
  case False
  let ?items = "join '', '' (map (\<lambda>(k, v). repr_str k @ '': '' @ repr_str v) d)"
  from join_items_head [OF False] obtain q t where
    qt: "?items = q # t" and q: "q = CHR 0x27 \<or> q = CHR 0x22"
    by blast
  then have ne: "?items @ ''}'' \<noteq> ''}''"
    by auto
  have "length d \<le> length (?items @ ''}'')"
    using length_join_items [of d] by simp
  from eval_items_repr [OF False this] have
    "eval_items (length (?items @ ''}'')) (?items @ ''}'') = Some d" .
  with ne assms show ?thesis
    by (simp add: eval_str_dict_def repr_str_dict_def)
qed

lemma str_items_map:
  "str_items kvs = Some d \<Longrightarrow> map (\<lambda>(k, v). (k, PStr v)) d = kvs \<and> map fst d = map fst kvs"
  by (induction kvs arbitrary: d rule: str_items.induct) auto

text \<open>Writing a dictionary of strings with \<open>str\<close> and evaluating the text gives it back.\<close>

lemma safe_eval_py_str:
  assumes "str_items kvs = Some d" and "distinct (map fst kvs)"
  shows "safe_eval env (py_str env (PDict kvs)) = Inr (PDict kvs)"
proof -
  from str_items_map [OF assms(1)] have
    m: "map (\<lambda>(k, v). (k, PStr v)) d = kvs" and f: "map fst d = map fst kvs"
    by simp_all
  from assms(2) f have "distinct (map fst d)" by simp
  then have "eval_str_dict (repr_str_dict d) = Some d"
    by (rule eval_dict_repr)
  then show ?thesis
    by (simp add: safe_eval_def py_str_def assms(1) m)
qed


lemma empty_dict_roundtrip: "safe_eval env (py_str env (PDict [])) = Inr (PDict [])"
  using safe_eval_py_str [of "[]" "[]" env] by simp

lemma webhook_headers_falsy:
  "headers self = None \<or> headers self = Some [] \<Longrightarrow> webhook_headers env self = Inr (PDict [])"
  by (auto simp: webhook_headers_def get_webhook_headers_def empty_dict_roundtrip)

lemma webhook_headers_parsed:
  assumes "headers self = Some h" and "h \<noteq> []"
    and "json_loads env (py_strip h) = Inr (PDict kvs)"
    and "str_items kvs = Some d" and "distinct (map fst kvs)"
  shows "webhook_headers env self = Inr (PDict kvs)"
  using assms safe_eval_py_str [OF assms(4,5), of env]
  by (simp add: webhook_headers_def get_webhook_headers_def py_dict_def)

lemma get_request_headers:
  assumes "webhook_headers env self = Inr hdrs" and "prepare_data_for_get env self r c = Inr params"
  shows "map req_headers (sent (snd (execute_webhook_get_request env self r c w)))
     = map req_headers (sent w) @ [hdrs]"
  using assms
  by (auto simp: webhook_headers_def execute_webhook_get_request_def requests_call_def
        split: sum.splits)

lemma post_request_headers:
  assumes "webhook_headers env self = Inr hdrs" and "prepare_payload env self r c = Inr data"
  shows "map req_headers (sent (snd (execute_webhook_post_request env self r c w)))
     = map req_headers (sent w) @ [hdrs]"
  using assms
  by (auto simp: webhook_headers_def execute_webhook_post_request_def requests_call_def
        split: sum.splits)

text \<open>
  Claim C10: when the stored headers are unset or empty, the header mapping given to the
  HTTP call is the empty mapping; when they parse as a JSON object whose keys and values
  are strings, writing that mapping with \<open>str\<close> and evaluating the text gives the mapping
  back, so the mapping given to the HTTP call is the parsed one; and the GET and the POST
  request carry exactly that mapping as their headers.
\<close>

theorem request_headers_are_parsed:
  "(headers self = None \<or> headers self = Some [] \<longrightarrow> webhook_headers env self = Inr (PDict []))
   \<and> (headers self = Some h \<and> h \<noteq> [] \<and> json_loads env (py_strip h) = Inr (PDict kvs)
        \<and> str_items kvs = Some d \<and> distinct (map fst kvs)
      \<longrightarrow> safe_eval env (py_str env (PDict kvs)) = Inr (PDict kvs)
          \<and> webhook_headers env self = Inr (PDict kvs))
   \<and> (webhook_headers env self = Inr hdrs \<and> prepare_data_for_get env self r c = Inr params
      \<longrightarrow> map req_headers (sent (snd (execute_webhook_get_request env self r c w)))
            = map req_headers (sent w) @ [hdrs])
   \<and> (webhook_headers env self = Inr hdrs \<and> prepare_payload env self r c = Inr data
      \<longrightarrow> map req_headers (sent (snd (execute_webhook_post_request env self r c w)))
            = map req_headers (sent w) @ [hdrs])"
  using webhook_headers_falsy [of self env] webhook_headers_parsed [of self h env kvs d]
    safe_eval_py_str [of kvs d env] get_request_headers [of env self hdrs r c params w]
    post_request_headers [of env self hdrs r c data w]
  by blast

text \<open>
  Claim C10 at the stored headers \<open>{"X-Token": "it's"}\<close>, whose value \<open>repr\<close> writes in
  double quotes, and at unset headers.
\<close>

theorem request_headers_are_parsed_witness:
  "headers (test_action\<lparr>headers := Some doc_headers\<rparr>) = Some doc_headers \<and> doc_headers \<noteq> []
   \<and> json_loads (test_env (Inr (answer_of 200 ''ok''))) (py_strip doc_headers)
        = Inr (PDict [(''X-Token'', PStr ''it's'')])
   \<and> str_items [(''X-Token'', PStr ''it's'')] = Some [(''X-Token'', ''it's'')]
   \<and> distinct (map fst [(''X-Token'', PStr ''it's'')])
   \<and> prepare_payload (test_env (Inr (answer_of 200 ''ok''))) (test_action\<lparr>headers := Some doc_headers\<rparr>)
        Map.empty Map.empty = Inr (PBytes (utf8_encode ''ping''))
   \<and> map req_headers (sent (snd (execute_webhook_post_request (test_env (Inr (answer_of 200 ''ok'')))
         (test_action\<lparr>headers := Some doc_headers\<rparr>) Map.empty Map.empty test_world)))
        = [PDict [(''X-Token'', PStr ''it's'')]]
   \<and> headers (test_action\<lparr>headers := None\<rparr>) = None
   \<and> webhook_headers (test_env (Inr (answer_of 200 ''ok''))) (test_action\<lparr>headers := None\<rparr>)
        = Inr (PDict [])"
proof -
  let ?E = "test_env (Inr (answer_of 200 ''ok''))"
  let ?A = "test_action\<lparr>headers := Some doc_headers\<rparr>"
  let ?kvs = "[(''X-Token'', PStr ''it's'')]"
  have h1: "headers ?A = Some doc_headers" by simp
  have h2: "doc_headers \<noteq> []" by (simp add: doc_headers_def)
  have h3: "json_loads ?E (py_strip doc_headers) = Inr (PDict ?kvs)" by code_simp
  have h4: "str_items ?kvs = Some [(''X-Token'', ''it's'')]" by simp
  have h5: "distinct (map fst ?kvs)" by simp
  have h6: "prepare_payload ?E ?A Map.empty Map.empty = Inr (PBytes (utf8_encode ''ping''))"
    by code_simp
  have h7: "headers (test_action\<lparr>headers := None\<rparr>) = None" by simp
  have wh: "webhook_headers ?E ?A = Inr (PDict ?kvs)"
    using request_headers_are_parsed [where self = ?A and h = doc_headers and env = ?E
        and kvs = ?kvs and d = "[(''X-Token'', ''it's'')]"]
      h1 h2 h3 h4 h5
    by blast
  have s: "map req_headers (sent (snd (execute_webhook_post_request ?E ?A Map.empty Map.empty test_world)))
      = map req_headers (sent test_world) @ [PDict ?kvs]"
    using request_headers_are_parsed [where self = ?A and env = ?E and hdrs = "PDict ?kvs"
        and r = Map.empty and c = Map.empty and w = test_world
        and data = "PBytes (utf8_encode ''ping'')"] wh h6
    by blast
  have e: "webhook_headers ?E (test_action\<lparr>headers := None\<rparr>) = Inr (PDict [])"
    using request_headers_are_parsed [where self = "test_action\<lparr>headers := None\<rparr>"
        and env = ?E] h7
    by blast
  have "sent test_world = []" by (simp add: test_world_def)
  with h1 h2 h3 h4 h5 h6 h7 s e show ?thesis
    by simp
qed

end
